theory Spec2Isabelle
  imports Main
begin

section \<open>sapper-store: a guarded state container over a reactive store\<close>

text \<open>
  The development embeds \<^verbatim>\<open>src/store.js\<close> (class \<^verbatim>\<open>Store extends BaseStore\<close>) and the
  constructor of the older variant of the same class. Every method is a function that takes
  the store and returns it updated; a method that can raise returns an \<open>outcome\<close> that
  carries the store as the exception leaves it.
\<close>

subsection \<open>JavaScript values\<close>

text \<open>
  State values are serialisable: null, booleans, numbers, strings, arrays and plain objects.
  A value read from an object can also be a function; \<open>JFunction k\<close> is the function found
  under the name \<open>k\<close>. An object is given by its own enumerable properties, a map from
  property names to values. What a property read finds beyond the own properties, the
  members inherited from \<^verbatim>\<open>Object.prototype\<close>, comes from the host (below). An object
  spread defines own properties; \<^verbatim>\<open>Object.assign\<close> assigns, which differs for one key
  (below, at \<^verbatim>\<open>commit\<close>).
\<close>

datatype jsval =
    JUndefined
  | JNull
  | JBool bool
  | JNum int
  | JStr string
  | JArr "jsval list"
  | JObj "string \<Rightarrow> jsval option"
  | JFunction string

type_synonym obj = "string \<Rightarrow> jsval option"

datatype exn = SyntaxError | TypeError | ReferenceError | Thrown jsval

text \<open>The decimal name of an array index, as a property key.\<close>

fun index_key :: "nat \<Rightarrow> string" where
  "index_key n =
     (if n < 10 then [''0123456789'' ! n]
      else index_key (n div 10) @ [''0123456789'' ! (n mod 10)])"

declare index_key.simps [simp del]

text \<open>
  The own enumerable properties that an object spread \<^verbatim>\<open>{...v}\<close> or
  \<^verbatim>\<open>Object.assign(target, v)\<close> copies from \<open>v\<close>: the fields of an object, the indexed
  elements of an array, the indexed characters of a string, nothing for the other values.
\<close>

fun own_props :: "jsval \<Rightarrow> obj" where
  "own_props (JObj m) = m"
| "own_props (JArr xs) = map_of (zip (map index_key [0..<length xs]) xs)"
| "own_props (JStr s) = map_of (zip (map index_key [0..<length s]) (map (\<lambda>c. JStr [c]) s))"
| "own_props _ = Map.empty"

text \<open>What a condition takes as true.\<close>

fun truthy :: "jsval \<Rightarrow> bool" where
  "truthy JUndefined = False"
| "truthy JNull = False"
| "truthy (JBool b) = b"
| "truthy (JNum n) = (n \<noteq> 0)"
| "truthy (JStr s) = (s \<noteq> [])"
| "truthy _ = True"

subsection \<open>The world around the store\<close>

datatype event = CustomEvent string jsval

datatype console_line =
    Warn string
  | Error string
  | Log string
  | LogWith string jsval
  | GroupCollapsed string
  | GroupEnd

text \<open>
  What the code shares with the rest of the page: the object heap (the state objects live
  here, so that a write through one reference is seen through every other),
  \<^verbatim>\<open>window.localStorage\<close>, the events given to \<^verbatim>\<open>window.dispatchEvent\<close> and the console
  output, oldest first.
\<close>

type_synonym addr = nat

record world =
  heap :: "addr \<Rightarrow> obj"
  next_addr :: addr
  localStorage :: "string \<Rightarrow> string option"
  events :: "event list"
  console :: "console_line list"

subsection \<open>The store and its tables\<close>

text \<open>
  The base class keeps the reference \<^verbatim>\<open>_state\<close> to the snapshot object and the observers
  of its \<^verbatim>\<open>'state'\<close> event. The only observer the sources register is the persistence
  listener, a closure over the storage key:
  \<^verbatim>\<open>({ current }) => { window.localStorage.setItem(key, JSON.stringify(current)); }\<close>
\<close>

datatype handler = Persist string

record base_store = world +
  state_ref :: addr
  handlers :: "handler list"

datatype status = Noop | Action | Mutation

record store = base_store +
  status :: status

datatype 'a outcome = Returns 'a store | Throws exn store

fun store_of :: "'a outcome \<Rightarrow> store" where
  "store_of (Returns x st) = st"
| "store_of (Throws e st) = st"

fun returned :: "'a outcome \<Rightarrow> 'a option" where
  "returned (Returns x st) = Some x"
| "returned (Throws e st) = None"

fun thrown :: "'a outcome \<Rightarrow> exn option" where
  "thrown (Returns x st) = None"
| "thrown (Throws e st) = Some e"

text \<open>
  The user's functions. An action receives the store and a payload and may commit, so it
  is a store transformer that may raise; only what it does before it returns is modelled.
  A mutation receives the current state and a payload and returns a partial state or
  raises. A getter is called with the store as \<^verbatim>\<open>this\<close> and the extra arguments of
  \<^verbatim>\<open>get\<close>, and only reads. An entry of a table that is not a function is \<open>NotFunction\<close>.
\<close>

type_synonym action_fn = "store \<Rightarrow> jsval \<Rightarrow> unit outcome"
type_synonym mutation_fn = "obj \<Rightarrow> jsval \<Rightarrow> exn + jsval"
type_synonym getter_fn = "store \<Rightarrow> jsval list \<Rightarrow> exn + jsval"

datatype 'f member = Function 'f | NotFunction jsval

text \<open>
  The fields the constructor assigns once: the three tables, each by its own entries, and
  the storage key.
\<close>

record tables =
  actions :: "string \<Rightarrow> action_fn member option"
  mutations :: "string \<Rightarrow> mutation_fn member option"
  getters :: "string \<Rightarrow> getter_fn member option"
  storeKey :: string

text \<open>The constructor's argument; an absent option is \<open>None\<close>.\<close>

record params =
  p_state :: "obj option"
  p_actions :: "(string \<Rightarrow> action_fn member option) option"
  p_mutations :: "(string \<Rightarrow> mutation_fn member option) option"
  p_getters :: "(string \<Rightarrow> getter_fn member option) option"
  p_key :: "string option"

subsection \<open>The host: configuration, JSON, the window, the object prototype\<close>

text \<open>
  The tables and the state snapshot are plain objects, so a read \<^verbatim>\<open>object[name]\<close> that
  finds no own property goes on to \<^verbatim>\<open>Object.prototype\<close>. A member found there is either a
  function, given by what it does in each of the three places where the code can call it
  (as an action from \<^verbatim>\<open>dispatch\<close>, as a mutation from \<^verbatim>\<open>commit\<close>, as a getter from
  \<^verbatim>\<open>get\<close>), or a value that is not a function.
\<close>

datatype inherited =
    InheritedFunction action_fn mutation_fn getter_fn
  | InheritedValue jsval

text \<open>
  What the module reads from its host and never writes: \<^verbatim>\<open>process.env.NODE_ENV\<close>,
  \<^verbatim>\<open>process.browser\<close> (true exactly where \<^verbatim>\<open>window\<close> exists), the built-in JSON codec
  and the members of \<^verbatim>\<open>Object.prototype\<close>. The built-ins are parameters: \<open>JSON_text h s\<close> is
  the value the text \<open>s\<close> denotes, \<open>None\<close> when \<open>s\<close> is not JSON; \<open>JSON_stringify h\<close>
  serialises a state object; \<open>Object_prototype h k\<close> is the member every plain object
  inherits under the name \<open>k\<close>, \<open>None\<close> when there is none.
\<close>

record host =
  NODE_ENV :: "string option"
  browser :: bool
  JSON_text :: "string \<Rightarrow> jsval option"
  JSON_stringify :: "obj \<Rightarrow> string"
  Object_prototype :: "string \<Rightarrow> inherited option"

text \<open>\<^verbatim>\<open>const isDev = process.env.NODE_ENV === 'development' || false\<close>\<close>

definition isDev :: "host \<Rightarrow> bool" where
  "isDev h \<longleftrightarrow> NODE_ENV h = Some ''development''"

text \<open>
  The argument of \<^verbatim>\<open>JSON.parse\<close> in \<^verbatim>\<open>init\<close> is either a stored string or the fallback
  object \<^verbatim>\<open>{}\<close>. \<^verbatim>\<open>JSON.parse\<close> converts its argument to a string first; the object \<^verbatim>\<open>{}\<close>
  converts to \<^verbatim>\<open>[object Object]\<close>, which is not JSON, so the call raises a SyntaxError.
\<close>

datatype json_arg = Text string | EmptyObject

fun JSON_parse :: "host \<Rightarrow> json_arg \<Rightarrow> exn + jsval" where
  "JSON_parse h (Text s) = (case JSON_text h s of None \<Rightarrow> Inl SyntaxError | Some v \<Rightarrow> Inr v)"
| "JSON_parse h EmptyObject = Inl SyntaxError"

text \<open>
  The reads \<^verbatim>\<open>this.actions[name]\<close>, \<^verbatim>\<open>this.mutations[name]\<close> and \<^verbatim>\<open>this.getters[name]\<close>:
  the own entry when there is one, the inherited member otherwise.
\<close>

definition actions_at :: "host \<Rightarrow> tables \<Rightarrow> string \<Rightarrow> action_fn member option" where
  "actions_at h t name =
     (case actions t name of
        Some e \<Rightarrow> Some e
      | None \<Rightarrow>
          (case Object_prototype h name of
             Some (InheritedFunction a m g) \<Rightarrow> Some (Function a)
           | Some (InheritedValue v) \<Rightarrow> Some (NotFunction v)
           | None \<Rightarrow> None))"

definition mutations_at :: "host \<Rightarrow> tables \<Rightarrow> string \<Rightarrow> mutation_fn member option" where
  "mutations_at h t name =
     (case mutations t name of
        Some e \<Rightarrow> Some e
      | None \<Rightarrow>
          (case Object_prototype h name of
             Some (InheritedFunction a m g) \<Rightarrow> Some (Function m)
           | Some (InheritedValue v) \<Rightarrow> Some (NotFunction v)
           | None \<Rightarrow> None))"

definition getters_at :: "host \<Rightarrow> tables \<Rightarrow> string \<Rightarrow> getter_fn member option" where
  "getters_at h t name =
     (case getters t name of
        Some e \<Rightarrow> Some e
      | None \<Rightarrow>
          (case Object_prototype h name of
             Some (InheritedFunction a m g) \<Rightarrow> Some (Function g)
           | Some (InheritedValue v) \<Rightarrow> Some (NotFunction v)
           | None \<Rightarrow> None))"

text \<open>
  The read \<^verbatim>\<open>state[name]\<close> of a field of the snapshot: the own property when there is
  one, else the inherited member (a function reads as a function value), else undefined.
\<close>

definition read_property :: "host \<Rightarrow> obj \<Rightarrow> string \<Rightarrow> jsval" where
  "read_property h ob name =
     (case ob name of
        Some v \<Rightarrow> v
      | None \<Rightarrow>
          (case Object_prototype h name of
             Some (InheritedFunction a m g) \<Rightarrow> JFunction name
           | Some (InheritedValue v) \<Rightarrow> v
           | None \<Rightarrow> JUndefined))"

subsection \<open>The reactive primitive\<close>

text \<open>
  \<^verbatim>\<open>Store\<close> of \<^verbatim>\<open>svelte/store.js\<close>, the base class, is an external library and not part of
  the sources; the definitions of this subsection follow the contract the spec gives for
  it. The field \<^verbatim>\<open>_state\<close>, which \<^verbatim>\<open>commit\<close> reads directly, is the reference to the
  snapshot object. An object that only travels as an argument (the spread copy that
  \<^verbatim>\<open>commit\<close> gives to \<^verbatim>\<open>set\<close>) is passed by its contents; the snapshot is an object of
  its own in the heap.
\<close>

text \<open>Creating an object: the next free address holds it.\<close>

definition alloc :: "obj \<Rightarrow> 'a world_scheme \<Rightarrow> addr \<times> 'a world_scheme" where
  "alloc ob w =
     (next_addr w, w\<lparr>heap := (heap w)(next_addr w := ob), next_addr := Suc (next_addr w)\<rparr>)"

text \<open>
  Modelled from the spec: the constructor of the base class, absent from the sources. The
  snapshot is a new object with the fields of the initial state (none when no state is
  given), and no observer is registered.
\<close>

definition BaseStore :: "obj option \<Rightarrow> world \<Rightarrow> base_store" where
  "BaseStore init_state w =
     (let (a, w1) = alloc (case init_state of None \<Rightarrow> Map.empty | Some s \<Rightarrow> s) w
      in \<lparr>heap = heap w1, next_addr = next_addr w1, localStorage = localStorage w1,
          events = events w1, console = console w1, state_ref = a, handlers = []\<rparr>)"

text \<open>
  Modelled from the spec: \<^verbatim>\<open>get()\<close> of the base class, absent from the sources; it
  returns the current snapshot.
\<close>

definition BaseStore_get :: "'a base_store_scheme \<Rightarrow> obj" where
  "BaseStore_get st = heap st (state_ref st)"

text \<open>
  Modelled from the spec: \<^verbatim>\<open>on('state', handler)\<close> of the base class, absent from the
  sources; it registers an observer, after those already registered.
\<close>

definition BaseStore_on :: "handler \<Rightarrow> 'a base_store_scheme \<Rightarrow> 'a base_store_scheme" where
  "BaseStore_on hdl st = st\<lparr>handlers := handlers st @ [hdl]\<rparr>"

text \<open>
  Modelled from the spec: the notification of the base class, absent from the sources;
  every registered observer is invoked with the new snapshot, in the order of
  registration. The body of the persistence listener is the one the sources give.
\<close>

fun fire :: "host \<Rightarrow> handler list \<Rightarrow> obj \<Rightarrow> 'a base_store_scheme \<Rightarrow> 'a base_store_scheme" where
  "fire h [] current st = st"
| "fire h (Persist k # hs) current st =
     fire h hs current (st\<lparr>localStorage := (localStorage st)(k \<mapsto> JSON_stringify h current)\<rparr>)"

text \<open>
  Modelled from the spec: \<^verbatim>\<open>set(value)\<close> of the base class, absent from the sources; it
  replaces the snapshot by the new value and synchronously notifies every observer.
\<close>

definition BaseStore_set :: "host \<Rightarrow> obj \<Rightarrow> 'a base_store_scheme \<Rightarrow> 'a base_store_scheme" where
  "BaseStore_set h newState st =
     (let (a, st1) = alloc newState st;
          st2 = st1\<lparr>state_ref := a\<rparr>
      in fire h (handlers st2) newState st2)"

subsection \<open>The methods of the store\<close>

definition with_status :: "status \<Rightarrow> base_store \<Rightarrow> store" where
  "with_status s b =
     \<lparr>heap = heap b, next_addr = next_addr b, localStorage = localStorage b, events = events b,
      console = console b, state_ref = state_ref b, handlers = handlers b, status = s\<rparr>"

definition world_of :: "store \<Rightarrow> world" where
  "world_of st =
     \<lparr>heap = heap st, next_addr = next_addr st, localStorage = localStorage st,
      events = events st, console = console st\<rparr>"

definition tables_of :: "params \<Rightarrow> tables" where
  "tables_of p =
     \<lparr>actions = (case p_actions p of None \<Rightarrow> Map.empty | Some a \<Rightarrow> a),
      mutations = (case p_mutations p of None \<Rightarrow> Map.empty | Some m \<Rightarrow> m),
      getters = (case p_getters p of None \<Rightarrow> Map.empty | Some g \<Rightarrow> g),
      storeKey = (case p_key p of None \<Rightarrow> ''_sapper_store_key_'' | Some k \<Rightarrow> k)\<rparr>"

text \<open>
  \<^verbatim>\<open>constructor(params)\<close> of \<^verbatim>\<open>src/store.js\<close>: in the browser the base store starts empty
  (\<^verbatim>\<open>super()\<close>), elsewhere with \<^verbatim>\<open>params.state\<close>; the status is \<^verbatim>\<open>'noop'\<close>; in the browser
  the persistence listener is registered. Nothing is read from \<^verbatim>\<open>localStorage\<close>.
\<close>

definition "constructor" :: "host \<Rightarrow> params \<Rightarrow> world \<Rightarrow> tables \<times> store" where
  "constructor h p w =
     (let b = BaseStore (if browser h then None else p_state p) w;
          st = with_status Noop b;
          t = tables_of p
      in (t, if browser h then BaseStore_on (Persist (storeKey t)) st else st))"

definition log :: "console_line \<Rightarrow> 'a world_scheme \<Rightarrow> 'a world_scheme" where
  "log l w = w\<lparr>console := console w @ [l]\<rparr>"

definition dispatchEvent :: "event \<Rightarrow> 'a world_scheme \<Rightarrow> 'a world_scheme" where
  "dispatchEvent e w = w\<lparr>events := events w @ [e]\<rparr>"

definition direct_set_warning :: string where
  \<open>direct_set_warning = ''Don't set state directly, you should use a mutation instead''\<close>

text \<open>\<^verbatim>\<open>set(newState)\<close>, lines 86 to 103.\<close>

definition set' :: "host \<Rightarrow> obj \<Rightarrow> store \<Rightarrow> store" where
  "set' h newState st =
     (let st1 = (if status st \<noteq> Mutation
                 then (if isDev h then log (Warn direct_set_warning) st else st)
                 else st);
          st2 = BaseStore_set h newState st1;
          st3 = (if isDev h then log (LogWith ''stateChange:'' (JObj newState)) st2 else st2);
          st4 = (if browser h then dispatchEvent (CustomEvent ''stateChange'' (JObj newState)) st3
                 else st3)
      in st4\<lparr>status := Noop\<rparr>)"

text \<open>
  \<^verbatim>\<open>init(state = {})\<close>, lines 54 to 59. \<^verbatim>\<open>window\<close> exists only in the browser; elsewhere
  its first line raises a ReferenceError. \<^verbatim>\<open>getItem\<close> returns null for an absent key, and
  \<^verbatim>\<open>||\<close> replaces null and the empty string by \<^verbatim>\<open>{}\<close>.
\<close>

definition init :: "host \<Rightarrow> tables \<Rightarrow> obj \<Rightarrow> store \<Rightarrow> unit outcome" where
  "init h t state st =
     (if \<not> browser h then Throws ReferenceError st
      else
        let json = (case localStorage st (storeKey t) of
                      None \<Rightarrow> EmptyObject
                    | Some s \<Rightarrow> if s = [] then EmptyObject else Text s);
            st1 = st\<lparr>status := Mutation\<rparr>
        in (case JSON_parse h json of
              Inl e \<Rightarrow> Throws e st1
            | Inr v \<Rightarrow> Returns () (set' h (state ++ own_props v) st1)))"

text \<open>
  The test \<^verbatim>\<open>this.getters.hasOwnProperty(key)\<close> of \<^verbatim>\<open>get\<close>. The method is read from the
  getter table like any other property: when the table has no own entry of that name it is
  the built-in, which tells whether \<open>key\<close> is an own entry. An own entry named
  \<^verbatim>\<open>hasOwnProperty\<close> takes its place: calling it raises a TypeError when it is not a
  function, and otherwise the test is whether its result, on the key, is taken as true
  (the function is called on the table; it is given here by what it does as a getter).
\<close>

definition getters_hasOwnProperty :: "tables \<Rightarrow> string \<Rightarrow> store \<Rightarrow> exn + bool" where
  "getters_hasOwnProperty t key st =
     (case getters t ''hasOwnProperty'' of
        None \<Rightarrow> Inr (getters t key \<noteq> None)
      | Some (NotFunction v) \<Rightarrow> Inl TypeError
      | Some (Function g) \<Rightarrow>
          (case g st [JStr key] of Inl e \<Rightarrow> Inl e | Inr r \<Rightarrow> Inr (truthy r)))"

text \<open>
  \<^verbatim>\<open>get(key = null, ...args)\<close>, lines 69 to 77. The key is \<open>None\<close> when the call gives
  none; \<^verbatim>\<open>if (key)\<close> takes the empty string as no key. Calling an entry of the getter
  table that is not a function raises a TypeError. Without a getter the result is the
  read \<^verbatim>\<open>super.get()[key]\<close>.
\<close>

definition get :: "host \<Rightarrow> tables \<Rightarrow> string option \<Rightarrow> jsval list \<Rightarrow> store \<Rightarrow> exn + jsval" where
  "get h t key args st =
     (case key of
        Some k \<Rightarrow>
          if k \<noteq> [] then
            (case getters_hasOwnProperty t k st of
               Inl e \<Rightarrow> Inl e
             | Inr True \<Rightarrow>
                 (case getters_at h t k of
                    Some (Function g) \<Rightarrow> g st args
                  | _ \<Rightarrow> Inl TypeError)
             | Inr False \<Rightarrow> Inr (read_property h (BaseStore_get st) k))
          else Inr (JObj (BaseStore_get st))
      | None \<Rightarrow> Inr (JObj (BaseStore_get st)))"

text \<open>
  \<^verbatim>\<open>dispatch(actionKey, payload)\<close>, lines 114 to 136. The test is
  \<^verbatim>\<open>typeof this.actions[actionKey] !== 'function'\<close>, on the read and not on the own entry.
\<close>

definition dispatch :: "host \<Rightarrow> tables \<Rightarrow> string \<Rightarrow> jsval \<Rightarrow> store \<Rightarrow> bool outcome" where
  \<open>dispatch h t actionKey payload st =
     (case actions_at h t actionKey of
        Some (Function f) \<Rightarrow>
          let st1 = (if isDev h then log (GroupCollapsed (''ACTION: '' @ actionKey)) st else st);
              st2 = st1\<lparr>status := Action\<rparr>
          in (case f st2 payload of
                Throws e st3 \<Rightarrow> Throws e st3
              | Returns u st3 \<Rightarrow> Returns True (if isDev h then log GroupEnd st3 else st3))
      | _ \<Rightarrow> Returns False (log (Error (''Action "'' @ actionKey @ '' doesn't exist.'')) st))\<close>

text \<open>
  \<^verbatim>\<open>Object.assign(target, source)\<close> on the own properties: each own enumerable property
  of the source is assigned to the target by an ordinary assignment \<^verbatim>\<open>target[key] = value\<close>.
  For every key but one this writes an own property of the target. An assignment to
  \<^verbatim>\<open>__proto__\<close> on an object that has no own property of that name reaches the accessor
  that every plain object inherits from \<^verbatim>\<open>Object.prototype\<close>: the setter changes the
  prototype link when the value is an object or null, does nothing otherwise, and in neither
  case creates a property. The state objects are plain objects; their prototype link is not
  part of the model.
\<close>

definition Object_assign :: "obj \<Rightarrow> obj \<Rightarrow> obj" where
  "Object_assign target source =
     (\<lambda>key. if key = ''__proto__'' \<and> target key = None then None
            else (target ++ source) key)"

text \<open>
  \<^verbatim>\<open>commit(mutationKey, payload)\<close>, lines 147 to 171. The test is
  \<^verbatim>\<open>typeof this.mutations[mutationKey] !== 'function'\<close>, on the read and not on the own
  entry. \<^verbatim>\<open>Object.assign(this._state, newState)\<close> writes the properties of \<open>newState\<close> into
  the object \<^verbatim>\<open>this._state\<close> refers to and returns that object; the spread copies it into a
  new object, which is given to \<^verbatim>\<open>set\<close>.
\<close>

definition commit :: "host \<Rightarrow> tables \<Rightarrow> string \<Rightarrow> jsval \<Rightarrow> store \<Rightarrow> bool outcome" where
  \<open>commit h t mutationKey payload st =
     (case mutations_at h t mutationKey of
        Some (Function m) \<Rightarrow>
          let st1 = st\<lparr>status := Mutation\<rparr>;
              st2 = (if isDev h then log (LogWith (''MUTATION '' @ mutationKey @ '':'') payload) st1
                     else st1);
              st3 = (if browser h then dispatchEvent (CustomEvent ''mutation'' (JStr mutationKey)) st2
                     else st2)
          in (case m (heap st3 (state_ref st3)) payload of
                Inl e \<Rightarrow> Throws e st3
              | Inr newState \<Rightarrow>
                  let st4 = st3\<lparr>heap := (heap st3)
                              (state_ref st3 :=
                                 Object_assign (heap st3 (state_ref st3)) (own_props newState))\<rparr>
                  in Returns True (set' h (heap st4 (state_ref st4)) st4))
      | _ \<Rightarrow> Returns False (log (Log (''Mutation "'' @ mutationKey @ ''" doesn't exist'')) st))\<close>

subsection \<open>The older variant of the constructor\<close>

text \<open>
  The second copy of the class differs in its constructor, lines 10 to 43: it has no getter
  table, and in the browser it reads the storage key at once, sets the status to
  \<^verbatim>\<open>'mutation'\<close>, gives the parsed value to \<^verbatim>\<open>set\<close> when the stored string is not empty
  (\<^verbatim>\<open>json && this.set(JSON.parse(json))\<close>), and only then registers the persistence
  listener. Its \<^verbatim>\<open>set\<close> is the one above.
\<close>

definition constructor_v1 :: "host \<Rightarrow> params \<Rightarrow> world \<Rightarrow> tables outcome" where
  "constructor_v1 h p w =
     (let b = BaseStore (if browser h then None else p_state p) w;
          st = with_status Noop b;
          t = (tables_of p)\<lparr>getters := Map.empty\<rparr>;
          key = storeKey t
      in if browser h then
           let json = localStorage st key;
               st1 = st\<lparr>status := Mutation\<rparr>
           in (case json of
                 None \<Rightarrow> Returns t (BaseStore_on (Persist key) st1)
               | Some s \<Rightarrow>
                   if s = [] then Returns t (BaseStore_on (Persist key) st1)
                   else (case JSON_parse h (Text s) of
                           Inl e \<Rightarrow> Throws e st1
                         | Inr v \<Rightarrow> Returns t (BaseStore_on (Persist key) (set' h (own_props v) st1))))
         else Returns t st)"

subsection \<open>A concrete store\<close>

text \<open>
  A store in the style of the README, used to evaluate the methods on concrete inputs: the
  state \<^verbatim>\<open>{items: ['a'], count: 0}\<close>, one mutation \<^verbatim>\<open>SET_COUNT\<close> that returns
  \<^verbatim>\<open>{count: payload}\<close>, one action that commits it, the README's getter \<^verbatim>\<open>itemCount\<close>
  (registered under the names \<^verbatim>\<open>itemCount\<close> and \<^verbatim>\<open>count\<close>, the second of which is also a
  field of the state), and the storage key \<^verbatim>\<open>K\<close>. The host is a browser in development
  mode whose JSON codec is given on the two texts the examples store, and whose
  \<^verbatim>\<open>Object.prototype\<close> is given on the one member the examples read, \<^verbatim>\<open>toString\<close>.
\<close>

definition demo_state :: obj where
  "demo_state = [''items'' \<mapsto> JArr [JStr ''a''], ''count'' \<mapsto> JNum 0]"

definition demo_text0 :: string where
  \<open>demo_text0 = ''{"items":["a"],"count":0}''\<close>

definition demo_text1 :: string where
  \<open>demo_text1 = ''{"items":["a"],"count":1}''\<close>

definition demo_stringify :: "obj \<Rightarrow> string" where
  "demo_stringify s = (if s ''count'' = Some (JNum 1) then demo_text1 else demo_text0)"

definition demo_JSON_text :: "string \<Rightarrow> jsval option" where
  "demo_JSON_text s =
     (if s = demo_text1 then Some (JObj (demo_state(''count'' \<mapsto> JNum 1)))
      else if s = demo_text0 then Some (JObj demo_state)
      else None)"

text \<open>
  \<^verbatim>\<open>Object.prototype.toString\<close>: on a plain object or a store it returns the string
  \<^verbatim>\<open>[object Object]\<close>, whatever its arguments, and changes nothing.
\<close>

definition Object_prototype_toString :: inherited where
  "Object_prototype_toString =
     InheritedFunction
       (\<lambda>context payload. Returns () context)
       (\<lambda>state payload. Inr (JStr ''[object Object]''))
       (\<lambda>this args. Inr (JStr ''[object Object]''))"

definition demo_host :: host where
  "demo_host =
     \<lparr>NODE_ENV = Some ''development'', browser = True,
      JSON_text = demo_JSON_text, JSON_stringify = demo_stringify,
      Object_prototype = [''toString'' \<mapsto> Object_prototype_toString]\<rparr>"

definition SET_COUNT :: mutation_fn where
  "SET_COUNT state payload = Inr (JObj [''count'' \<mapsto> payload])"

definition itemCount :: getter_fn where
  "itemCount st args =
     (case BaseStore_get st ''items'' of
        Some (JArr xs) \<Rightarrow> Inr (JNum (int (length xs)))
      | _ \<Rightarrow> Inl TypeError)"

definition setCount :: action_fn where
  "setCount context payload =
     (case commit demo_host
             \<lparr>actions = Map.empty, mutations = [''SET_COUNT'' \<mapsto> Function SET_COUNT],
              getters = Map.empty, storeKey = ''K''\<rparr>
             ''SET_COUNT'' payload context of
        Returns b st \<Rightarrow> Returns () st
      | Throws e st \<Rightarrow> Throws e st)"

definition demo_params :: params where
  "demo_params =
     \<lparr>p_state = Some demo_state,
      p_actions = Some [''setCount'' \<mapsto> Function setCount],
      p_mutations = Some [''SET_COUNT'' \<mapsto> Function SET_COUNT],
      p_getters = Some [''itemCount'' \<mapsto> Function itemCount, ''count'' \<mapsto> Function itemCount],
      p_key = Some ''K''\<rparr>"

definition demo_tables :: tables where
  "demo_tables = tables_of demo_params"

definition demo_store :: store where
  "demo_store =
     \<lparr>heap = (\<lambda>a. Map.empty)(0 := demo_state), next_addr = 1, localStorage = Map.empty,
      events = [], console = [], state_ref = 0, handlers = [Persist ''K''], status = Noop\<rparr>"

text \<open>A getter table whose only entry is registered under the empty name.\<close>

definition blank_name_tables :: tables where
  "blank_name_tables =
     \<lparr>actions = Map.empty, mutations = Map.empty,
      getters = ['''' \<mapsto> Function itemCount], storeKey = ''K''\<rparr>"




text \<open>
  A getter table with an own entry named \<^verbatim>\<open>hasOwnProperty\<close>, a function that returns
  false whatever it is called on, beside the getter \<^verbatim>\<open>count\<close>.
\<close>

definition always_false :: getter_fn where
  "always_false this args = Inr (JBool False)"

definition shadowing_tables :: tables where
  "shadowing_tables =
     \<lparr>actions = Map.empty, mutations = Map.empty,
      getters = [''hasOwnProperty'' \<mapsto> Function always_false, ''count'' \<mapsto> Function itemCount],
      storeKey = ''K''\<rparr>"

text \<open>The demo store after \<^verbatim>\<open>commit('SET_COUNT', 1)\<close>.\<close>

definition demo_committed :: store where
  "demo_committed = store_of (commit demo_host demo_tables ''SET_COUNT'' (JNum 1) demo_store)"

section \<open>Basic facts about the model\<close>

subsection \<open>Field by field: what each step changes\<close>

lemma log_fields [simp]:
  "heap (log l st) = heap st" "next_addr (log l st) = next_addr st"
  "localStorage (log l st) = localStorage st" "events (log l st) = events st"
  "console (log l st) = console st @ [l]"
  by (simp_all add: log_def)

lemma log_store_fields [simp]:
  "state_ref (log l st) = state_ref st" "handlers (log l st) = handlers st"
  by (simp_all add: log_def)

lemma log_status [simp]: "status (log l st) = status st"
  by (simp add: log_def)

lemma dispatchEvent_fields [simp]:
  "heap (dispatchEvent e st) = heap st" "next_addr (dispatchEvent e st) = next_addr st"
  "localStorage (dispatchEvent e st) = localStorage st"
  "events (dispatchEvent e st) = events st @ [e]"
  "console (dispatchEvent e st) = console st"
  by (simp_all add: dispatchEvent_def)

lemma dispatchEvent_store_fields [simp]:
  "state_ref (dispatchEvent e st) = state_ref st" "handlers (dispatchEvent e st) = handlers st"
  by (simp_all add: dispatchEvent_def)

lemma dispatchEvent_status [simp]: "status (dispatchEvent e st) = status st"
  by (simp add: dispatchEvent_def)

lemma BaseStore_fields [simp]:
  "heap (BaseStore i w) = (heap w)(next_addr w := (case i of None \<Rightarrow> Map.empty | Some s \<Rightarrow> s))"
  "next_addr (BaseStore i w) = Suc (next_addr w)"
  "localStorage (BaseStore i w) = localStorage w"
  "events (BaseStore i w) = events w"
  "console (BaseStore i w) = console w"
  "state_ref (BaseStore i w) = next_addr w"
  "handlers (BaseStore i w) = []"
  by (simp_all add: BaseStore_def alloc_def)

lemma with_status_fields [simp]:
  "heap (with_status s b) = heap b" "next_addr (with_status s b) = next_addr b"
  "localStorage (with_status s b) = localStorage b" "events (with_status s b) = events b"
  "console (with_status s b) = console b" "state_ref (with_status s b) = state_ref b"
  "handlers (with_status s b) = handlers b" "status (with_status s b) = s"
  by (simp_all add: with_status_def)

lemma world_of_fields [simp]:
  "heap (world_of st) = heap st" "next_addr (world_of st) = next_addr st"
  "localStorage (world_of st) = localStorage st" "events (world_of st) = events st"
  "console (world_of st) = console st"
  by (simp_all add: world_of_def)

lemma BaseStore_on_fields [simp]:
  "heap (BaseStore_on x st) = heap st" "next_addr (BaseStore_on x st) = next_addr st"
  "localStorage (BaseStore_on x st) = localStorage st" "events (BaseStore_on x st) = events st"
  "console (BaseStore_on x st) = console st" "state_ref (BaseStore_on x st) = state_ref st"
  "handlers (BaseStore_on x st) = handlers st @ [x]"
  by (simp_all add: BaseStore_on_def)

lemma BaseStore_on_status [simp]: "status (BaseStore_on x st) = status st"
  by (simp add: BaseStore_on_def)

text \<open>The observers only write to \<^verbatim>\<open>localStorage\<close>; the last write to a key wins.\<close>

lemma fire_fields [simp]:
  "heap (fire h hs c st) = heap st"
  "next_addr (fire h hs c st) = next_addr st"
  "state_ref (fire h hs c st) = state_ref st"
  "handlers (fire h hs c st) = handlers st"
  "events (fire h hs c st) = events st"
  "console (fire h hs c st) = console st"
  by (induction h hs c st rule: fire.induct; simp)+

lemma fire_status [simp]: "status (fire h hs c st) = status st"
  by (induction h hs c st rule: fire.induct; simp)

lemma fire_localStorage:
  "localStorage (fire h hs c st) k =
     (if Persist k \<in> set hs then Some (JSON_stringify h c) else localStorage st k)"
  by (induction h hs c st rule: fire.induct) auto

lemma BaseStore_set_fields [simp]:
  "state_ref (BaseStore_set h n st) = next_addr st"
  "heap (BaseStore_set h n st) = (heap st)(next_addr st := n)"
  "next_addr (BaseStore_set h n st) = Suc (next_addr st)"
  "handlers (BaseStore_set h n st) = handlers st"
  "events (BaseStore_set h n st) = events st"
  "console (BaseStore_set h n st) = console st"
  by (simp_all add: BaseStore_set_def alloc_def)

lemma BaseStore_set_status [simp]: "status (BaseStore_set h n st) = status st"
  by (simp add: BaseStore_set_def alloc_def)

lemma BaseStore_set_localStorage:
  "localStorage (BaseStore_set h n st) k =
     (if Persist k \<in> set (handlers st) then Some (JSON_stringify h n) else localStorage st k)"
  by (simp add: BaseStore_set_def alloc_def fire_localStorage)

subsection \<open>The guarded write\<close>

lemma set'_fields:
  "status (set' h n st) = Noop"
  "state_ref (set' h n st) = next_addr st"
  "heap (set' h n st) = (heap st)(next_addr st := n)"
  "next_addr (set' h n st) = Suc (next_addr st)"
  "handlers (set' h n st) = handlers st"
  by (simp_all add: set'_def Let_def)

lemma set'_get: "BaseStore_get (set' h n st) = n"
  by (simp add: BaseStore_get_def set'_fields)

lemma set'_localStorage:
  "localStorage (set' h n st) k =
     (if Persist k \<in> set (handlers st) then Some (JSON_stringify h n) else localStorage st k)"
  by (simp add: set'_def Let_def BaseStore_set_localStorage)

lemma set'_console:
  "console (set' h n st) =
     console st @ (if status st \<noteq> Mutation \<and> isDev h then [Warn direct_set_warning] else [])
       @ (if isDev h then [LogWith ''stateChange:'' (JObj n)] else [])"
  by (simp add: set'_def Let_def)

lemma set'_events:
  "events (set' h n st) =
     events st @ (if browser h then [CustomEvent ''stateChange'' (JObj n)] else [])"
  by (simp add: set'_def Let_def)

text \<open>
  The reference to the state object always points below the allocation counter, so the
  object that \<^verbatim>\<open>set\<close> installs is a new one.
\<close>

lemma constructor_allocated: "state_ref (snd (constructor h p w)) < next_addr (snd (constructor h p w))"
  by (simp add: constructor_def Let_def)

lemma set'_allocated: "state_ref (set' h n st) < next_addr (set' h n st)"
  by (simp add: set'_fields)

subsection \<open>Commit, step by step\<close>

text \<open>An own entry is what the read finds.\<close>

lemma own_entry_at [simp]:
  "actions t k = Some a \<Longrightarrow> actions_at h t k = Some a"
  "mutations t k = Some m \<Longrightarrow> mutations_at h t k = Some m"
  "getters t k = Some g \<Longrightarrow> getters_at h t k = Some g"
  by (simp_all add: actions_at_def mutations_at_def getters_at_def)

text \<open>A name that is neither an own entry nor inherited is not found.\<close>

lemma no_entry_at [simp]:
  "actions t k = None \<Longrightarrow> Object_prototype h k = None \<Longrightarrow> actions_at h t k = None"
  "mutations t k = None \<Longrightarrow> Object_prototype h k = None \<Longrightarrow> mutations_at h t k = None"
  "getters t k = None \<Longrightarrow> Object_prototype h k = None \<Longrightarrow> getters_at h t k = None"
  by (simp_all add: actions_at_def mutations_at_def getters_at_def)

text \<open>Off the key \<^verbatim>\<open>__proto__\<close>, assigning is merging.\<close>

lemma Object_assign_at:
  "key \<noteq> ''__proto__'' \<Longrightarrow> Object_assign target source key = (target ++ source) key"
  by (simp add: Object_assign_def)

lemma Object_assign_plain:
  "source ''__proto__'' = None \<Longrightarrow> Object_assign target source = target ++ source"
  by (auto simp: Object_assign_def fun_eq_iff map_add_def split: option.splits)

lemma commit_found:
  assumes "mutations_at h t k = Some (Function m)"
    and "m (BaseStore_get st) payload = Inr v"
  shows "returned (commit h t k payload st) = Some True"
    and "BaseStore_get (store_of (commit h t k payload st))
           = Object_assign (BaseStore_get st) (own_props v)"
    and "status (store_of (commit h t k payload st)) = Noop"
    and "state_ref (store_of (commit h t k payload st)) = next_addr st"
    and "heap (store_of (commit h t k payload st)) =
           (heap st)(state_ref st := Object_assign (BaseStore_get st) (own_props v),
                     next_addr st := Object_assign (BaseStore_get st) (own_props v))"
  using assms
  by (simp_all add: commit_def Let_def BaseStore_get_def set'_fields)

lemma commit_known:
  assumes "mutations t k = Some (Function m)"
    and "m (BaseStore_get st) payload = Inr v"
    and "own_props v ''__proto__'' = None"
  shows "returned (commit h t k payload st) = Some True"
    and "BaseStore_get (store_of (commit h t k payload st)) = BaseStore_get st ++ own_props v"
    and "status (store_of (commit h t k payload st)) = Noop"
    and "state_ref (store_of (commit h t k payload st)) = next_addr st"
  using commit_found [OF own_entry_at(2) [OF assms(1)] assms(2)] assms(3)
  by (simp_all add: Object_assign_plain)

lemma commit_True_cases:
  assumes "returned (commit h t k payload st) = Some True"
  obtains m v where "mutations_at h t k = Some (Function m)"
    and "m (BaseStore_get st) payload = Inr v"
  using assms
  by (cases "isDev h"; cases "browser h")
     (auto simp: commit_def Let_def BaseStore_get_def split: option.splits member.splits sum.splits)

text \<open>
  A function that the table inherits is found and run: the call does not return false.
\<close>

lemma inherited_function_is_found:
  assumes "Object_prototype h name = Some (InheritedFunction a m g)"
  shows "actions t name = None \<Longrightarrow> returned (dispatch h t name payload st) \<noteq> Some False"
    and "mutations t name = None \<Longrightarrow> returned (commit h t name payload st) \<noteq> Some False"
  using assms
  by (auto simp: dispatch_def commit_def actions_at_def mutations_at_def Let_def
           split: outcome.splits sum.splits)

text \<open>Outside the own entries and the inherited members, nothing is run.\<close>

lemma unknown_name_returns_false:
  assumes "Object_prototype h name = None"
  shows \<open>actions t name = None \<Longrightarrow>
           dispatch h t name payload st =
             Returns False (st\<lparr>console := console st @ [Error (''Action "'' @ name @ '' doesn't exist.'')]\<rparr>)\<close>
    and \<open>mutations t name = None \<Longrightarrow>
           commit h t name payload st =
             Returns False (st\<lparr>console := console st @ [Log (''Mutation "'' @ name @ ''" doesn't exist'')]\<rparr>)\<close>
  using assms by (simp_all add: dispatch_def commit_def log_def)

lemma commit_persists:
  assumes "returned (commit h t k payload st) = Some True"
    and "Persist K \<in> set (handlers st)"
  shows "localStorage (store_of (commit h t k payload st)) K =
           Some (JSON_stringify h (BaseStore_get (store_of (commit h t k payload st))))"
proof -
  from assms(1) obtain m v where m: "mutations_at h t k = Some (Function m)"
    and v: "m (BaseStore_get st) payload = Inr v"
    by (rule commit_True_cases)
  have g: "BaseStore_get (store_of (commit h t k payload st))
             = Object_assign (BaseStore_get st) (own_props v)"
    by (rule commit_found(2) [OF m v])
  have "localStorage (store_of (commit h t k payload st)) K =
          Some (JSON_stringify h (Object_assign (BaseStore_get st) (own_props v)))"
    using m v assms(2)
    by (simp add: commit_def Let_def BaseStore_get_def set'_localStorage)
  with g show ?thesis by simp
qed

subsection \<open>Construction and loading\<close>

lemma constructor_browser:
  assumes "browser h"
  shows "BaseStore_get (snd (constructor h p w)) = Map.empty"
    and "handlers (snd (constructor h p w)) = [Persist (storeKey (tables_of p))]"
    and "localStorage (snd (constructor h p w)) = localStorage w"
    and "fst (constructor h p w) = tables_of p"
    and "status (snd (constructor h p w)) = Noop"
  using assms by (simp_all add: constructor_def Let_def BaseStore_get_def)

lemma init_loads:
  assumes "browser h" and "localStorage st (storeKey t) = Some s" and "s \<noteq> []"
    and "JSON_text h s = Some v"
  shows "init h t serverState st =
           Returns () (set' h (serverState ++ own_props v) (st\<lparr>status := Mutation\<rparr>))"
  using assms by (simp add: init_def Let_def)

lemma constructor_v1_loads:
  assumes "browser h" and "localStorage w (storeKey (tables_of p)) = Some s" and "s \<noteq> []"
    and "JSON_text h s = Some v"
  shows "returned (constructor_v1 h p w) = Some ((tables_of p)\<lparr>getters := Map.empty\<rparr>)"
    and "BaseStore_get (store_of (constructor_v1 h p w)) = own_props v"
    and "handlers (store_of (constructor_v1 h p w)) = [Persist (storeKey (tables_of p))]"
    and "localStorage (store_of (constructor_v1 h p w)) = localStorage w"
  using assms
  by (simp_all add: constructor_v1_def Let_def BaseStore_get_def set'_fields set'_localStorage
        fun_eq_iff)

subsection \<open>The concrete store, evaluated\<close>

lemma demo_tables_simps [simp]:
  "mutations demo_tables = [''SET_COUNT'' \<mapsto> Function SET_COUNT]"
  "actions demo_tables = [''setCount'' \<mapsto> Function setCount]"
  "getters demo_tables = [''itemCount'' \<mapsto> Function itemCount, ''count'' \<mapsto> Function itemCount]"
  "storeKey demo_tables = ''K''"
  by (simp_all add: demo_tables_def tables_of_def demo_params_def)

lemma demo_host_simps [simp]:
  "browser demo_host" "isDev demo_host"
  "JSON_text demo_host = demo_JSON_text" "JSON_stringify demo_host = demo_stringify"
  "NODE_ENV demo_host = Some ''development''"
  "Object_prototype demo_host = [''toString'' \<mapsto> Object_prototype_toString]"
  by (simp_all add: demo_host_def isDev_def)

lemma demo_store_simps [simp]:
  "BaseStore_get demo_store = demo_state"
  "state_ref demo_store = 0" "next_addr demo_store = 1"
  "handlers demo_store = [Persist ''K'']" "status demo_store = Noop"
  "localStorage demo_store = Map.empty" "heap demo_store 0 = demo_state"
  by (simp_all add: demo_store_def BaseStore_get_def)

lemma demo_commit_returns:
  "returned (commit demo_host demo_tables ''SET_COUNT'' (JNum 1) demo_store) = Some True"
  by (rule commit_known(1) [where m = SET_COUNT and v = "JObj [''count'' \<mapsto> JNum 1]"])
     (simp_all add: SET_COUNT_def)

lemma demo_committed_state:
  "BaseStore_get demo_committed = demo_state(''count'' \<mapsto> JNum 1)"
proof -
  have "BaseStore_get demo_committed =
          BaseStore_get demo_store ++ own_props (JObj [''count'' \<mapsto> JNum 1])"
    unfolding demo_committed_def
    by (rule commit_known(2) [where m = SET_COUNT]) (simp_all add: SET_COUNT_def)
  then show ?thesis by simp
qed

lemma demo_round_trip:
  "demo_stringify (BaseStore_get demo_committed) = demo_text1"
  "demo_JSON_text demo_text1 = Some (JObj (BaseStore_get demo_committed))"
  "demo_text1 \<noteq> []"
  by (simp_all add: demo_committed_state demo_stringify_def demo_JSON_text_def demo_text1_def)

text \<open>Dispatching the action of the concrete store commits its mutation.\<close>

lemma demo_dispatch_setCount:
  "returned (dispatch demo_host demo_tables ''setCount'' (JNum 1) demo_store) = Some True"
  "BaseStore_get (store_of (dispatch demo_host demo_tables ''setCount'' (JNum 1) demo_store)) ''count''
     = Some (JNum 1)"
  "status (store_of (dispatch demo_host demo_tables ''setCount'' (JNum 1) demo_store)) = Noop"
  by (simp_all add: dispatch_def setCount_def commit_def SET_COUNT_def Let_def
        BaseStore_get_def set'_fields mutations_at_def Object_assign_def)

section \<open>The claims\<close>

subsection \<open>C1: commit merges the partial state over the current state\<close>




subsection \<open>C2: the object given to set is new, the previous one is merged into in place\<close>




subsection \<open>C3: unknown names\<close>

text \<open>
  Claim C3 says that for every name absent from the action table dispatch returns false,
  that for every name absent from the mutation table commit returns false, and that
  neither changes the store. The code tests \<^verbatim>\<open>typeof this.actions[name]\<close> and
  \<^verbatim>\<open>typeof this.mutations[name]\<close>, which also find what the table inherits, where \<^verbatim>\<open>get\<close>
  tests \<^verbatim>\<open>hasOwnProperty\<close>. In the concrete store neither table has an entry \<^verbatim>\<open>toString\<close>,
  and yet \<^verbatim>\<open>dispatch('toString', 7)\<close> returns true and leaves the guard at
  action-in-progress, and \<^verbatim>\<open>commit('toString', 7)\<close> returns true, merges the characters of
  \<^verbatim>\<open>[object Object]\<close> into the state under the keys \<^verbatim>\<open>0\<close>, \<^verbatim>\<open>1\<close>, ... and writes the
  persisted copy.
\<close>

theorem inherited_name_is_run:
  "actions demo_tables ''toString'' = None \<and>
   mutations demo_tables ''toString'' = None \<and>
   returned (dispatch demo_host demo_tables ''toString'' (JNum 7) demo_store) = Some True \<and>
   status (store_of (dispatch demo_host demo_tables ''toString'' (JNum 7) demo_store)) = Action \<and>
   returned (commit demo_host demo_tables ''toString'' (JNum 7) demo_store) = Some True \<and>
   BaseStore_get demo_store ''0'' = None \<and>
   BaseStore_get (store_of (commit demo_host demo_tables ''toString'' (JNum 7) demo_store)) ''0''
     = Some (JStr ''['') \<and>
   localStorage demo_store ''K'' = None \<and>
   localStorage (store_of (commit demo_host demo_tables ''toString'' (JNum 7) demo_store)) ''K''
     \<noteq> None"
proof -
  have a: "actions_at demo_host demo_tables ''toString'' = Some (Function (\<lambda>context payload. Returns () context))"
    by (simp add: actions_at_def Object_prototype_toString_def)
  have m: "mutations_at demo_host demo_tables ''toString''
             = Some (Function (\<lambda>state payload. Inr (JStr ''[object Object]'')))"
    by (simp add: mutations_at_def Object_prototype_toString_def)
  have d: "returned (dispatch demo_host demo_tables ''toString'' (JNum 7) demo_store) = Some True"
    "status (store_of (dispatch demo_host demo_tables ''toString'' (JNum 7) demo_store)) = Action"
    by (simp_all add: dispatch_def a Let_def)
  have r: "(\<lambda>state payload. Inr (JStr ''[object Object]'')) (BaseStore_get demo_store) (JNum 7)
             = (Inr (JStr ''[object Object]'') :: exn + jsval)"
    by simp
  note c = commit_found [OF m r]
  have z: "own_props (JStr ''[object Object]'') ''0'' = Some (JStr ''['')"
    by (simp add: upt_rec index_key.simps)
  have s: "BaseStore_get (store_of (commit demo_host demo_tables ''toString'' (JNum 7) demo_store)) ''0''
     = Some (JStr ''['')"
    using c(2) z by (simp add: Object_assign_at map_add_def)
  have "localStorage (store_of (commit demo_host demo_tables ''toString'' (JNum 7) demo_store)) ''K''
     = Some (JSON_stringify demo_host
               (BaseStore_get (store_of (commit demo_host demo_tables ''toString'' (JNum 7) demo_store))))"
    by (rule commit_persists [OF c(1)]) simp
  then have l: "localStorage (store_of (commit demo_host demo_tables ''toString'' (JNum 7) demo_store)) ''K''
     \<noteq> None"
    by simp
  show ?thesis
    using d c(1) s l by (simp add: demo_state_def)
qed

subsection \<open>C4: set leaves the guard idle\<close>

text \<open>
  Claim C4. After every completed call of set the guard is idle, whatever it was on entry:
  when set is called directly, when commit calls it (commit returns true), and when init
  calls it (init returns).
\<close>

theorem set_resets_guard:
  "status (set' h newState st) = Noop \<and>
   (returned (commit h t k payload st) = Some True \<longrightarrow>
      status (store_of (commit h t k payload st)) = Noop) \<and>
   (returned (init h t serverState st) = Some () \<longrightarrow>
      status (store_of (init h t serverState st)) = Noop)"
  by (auto simp: set'_fields commit_def init_def Let_def
           split: option.splits member.splits sum.splits if_splits)

theorem set_resets_guard_witness:
  "returned (commit demo_host demo_tables ''SET_COUNT'' (JNum 1) demo_store) = Some True \<and>
   status (store_of (commit demo_host demo_tables ''SET_COUNT'' (JNum 1) demo_store)) = Noop \<and>
   returned (init demo_host demo_tables Map.empty
              (demo_store\<lparr>localStorage := [''K'' \<mapsto> demo_text1], status := Action\<rparr>)) = Some () \<and>
   status (store_of (init demo_host demo_tables Map.empty
              (demo_store\<lparr>localStorage := [''K'' \<mapsto> demo_text1], status := Action\<rparr>))) = Noop \<and>
   status (set' demo_host demo_state (demo_store\<lparr>status := Action\<rparr>)) = Noop"
proof -
  have c: "returned (commit demo_host demo_tables ''SET_COUNT'' (JNum 1) demo_store) = Some True"
    by (rule demo_commit_returns)
  have i: "returned (init demo_host demo_tables Map.empty
              (demo_store\<lparr>localStorage := [''K'' \<mapsto> demo_text1], status := Action\<rparr>)) = Some ()"
    by (simp add: init_def Let_def demo_JSON_text_def demo_text1_def)
  show ?thesis
    using c i
      set_resets_guard [of demo_host demo_state "demo_store\<lparr>status := Action\<rparr>"]
      set_resets_guard [of demo_host _ demo_store demo_tables "''SET_COUNT''" "JNum 1"]
      set_resets_guard [of demo_host _
         "demo_store\<lparr>localStorage := [''K'' \<mapsto> demo_text1], status := Action\<rparr>"
         demo_tables _ _ Map.empty]
    by simp
qed

subsection \<open>C5: a persisted value that does not parse\<close>




subsection \<open>C6: persistence round trip\<close>

text \<open>
  Claim C6, as amended. In the browser, let a store persist under the key \<open>K\<close>, let a commit
  on it produce the state \<open>S\<close>, and let the JSON codec read the serialised \<open>S\<close> back as \<open>S\<close>.
  Then the serialised \<open>S\<close> is stored under \<open>K\<close>, and for a fresh instance constructed with
  the same key:
  \<^item> the constructor of \<^verbatim>\<open>src/store.js\<close> reads nothing, the fresh state is empty; the
    persisted state is loaded by \<^verbatim>\<open>init(serverState)\<close>, after which the state is
    \<open>serverState\<close> overwritten by \<open>S\<close> (equal to \<open>S\<close> on every key of \<open>S\<close>), and since the
    persistence listener is already attached the loaded state is written back;
  \<^item> the constructor of the older variant loads \<open>S\<close> at construction, before it attaches
    the persistence listener, so nothing is written back.
\<close>

theorem persisted_state_round_trip:
  assumes "browser h"
    and "Persist K \<in> set (handlers st)"
    and "returned (commit h t k payload st) = Some True"
    and "S = BaseStore_get (store_of (commit h t k payload st))"
    and "w = world_of (store_of (commit h t k payload st))"
    and "JSON_stringify h S \<noteq> []"
    and "JSON_text h (JSON_stringify h S) = Some (JObj S)"
    and "p_key p = Some K"
  shows "localStorage w K = Some (JSON_stringify h S) \<and>
         BaseStore_get (snd (constructor h p w)) = Map.empty \<and>
         returned (init h (fst (constructor h p w)) serverState (snd (constructor h p w))) = Some () \<and>
         BaseStore_get (store_of (init h (fst (constructor h p w)) serverState (snd (constructor h p w))))
           = serverState ++ S \<and>
         localStorage (store_of (init h (fst (constructor h p w)) serverState (snd (constructor h p w)))) K
           = Some (JSON_stringify h (serverState ++ S)) \<and>
         returned (constructor_v1 h p w) = Some ((tables_of p)\<lparr>getters := Map.empty\<rparr>) \<and>
         BaseStore_get (store_of (constructor_v1 h p w)) = S \<and>
         handlers (store_of (constructor_v1 h p w)) = [Persist K] \<and>
         localStorage (store_of (constructor_v1 h p w)) = localStorage w"
proof -
  have key: "storeKey (tables_of p) = K"
    using assms(8) by (simp add: tables_of_def)
  have stored: "localStorage w K = Some (JSON_stringify h S)"
    using commit_persists [OF assms(3) assms(2)] assms(4,5) by simp
  note c = constructor_browser [OF assms(1), of p w]
  have l: "localStorage (snd (constructor h p w)) (storeKey (fst (constructor h p w)))
             = Some (JSON_stringify h S)"
    using c stored key by simp
  note i = init_loads [OF assms(1) l assms(6) assms(7), of serverState]
  have i1: "returned (init h (fst (constructor h p w)) serverState (snd (constructor h p w))) = Some ()"
    using i by simp
  have i2: "BaseStore_get (store_of (init h (fst (constructor h p w)) serverState (snd (constructor h p w))))
           = serverState ++ S"
    using i by (simp add: set'_get)
  have i3: "localStorage (store_of (init h (fst (constructor h p w)) serverState (snd (constructor h p w)))) K
           = Some (JSON_stringify h (serverState ++ S))"
    using i c(2) key by (simp add: set'_localStorage)
  have l1: "localStorage w (storeKey (tables_of p)) = Some (JSON_stringify h S)"
    using stored key by simp
  note v = constructor_v1_loads [OF assms(1) l1 assms(6) assms(7)]
  show ?thesis
    using stored c(1) i1 i2 i3 v key by simp
qed

theorem persisted_state_round_trip_witness:
  "browser demo_host \<and> Persist ''K'' \<in> set (handlers demo_store) \<and>
   returned (commit demo_host demo_tables ''SET_COUNT'' (JNum 1) demo_store) = Some True \<and>
   JSON_stringify demo_host (BaseStore_get demo_committed) \<noteq> [] \<and>
   JSON_text demo_host (JSON_stringify demo_host (BaseStore_get demo_committed))
     = Some (JObj (BaseStore_get demo_committed)) \<and>
   p_key demo_params = Some ''K'' \<and>
   BaseStore_get demo_committed ''count'' = Some (JNum 1) \<and>
   localStorage (world_of demo_committed) ''K'' = Some demo_text1 \<and>
   BaseStore_get (snd (constructor demo_host demo_params (world_of demo_committed))) = Map.empty \<and>
   BaseStore_get (store_of (init demo_host (fst (constructor demo_host demo_params (world_of demo_committed)))
       Map.empty (snd (constructor demo_host demo_params (world_of demo_committed))))) ''count''
     = Some (JNum 1) \<and>
   BaseStore_get (store_of (constructor_v1 demo_host demo_params (world_of demo_committed))) ''count''
     = Some (JNum 1)"
proof -
  have b: "browser demo_host" by simp
  have l: "Persist ''K'' \<in> set (handlers demo_store)" by simp
  have r: "returned (commit demo_host demo_tables ''SET_COUNT'' (JNum 1) demo_store) = Some True"
    by (rule demo_commit_returns)
  have s: "BaseStore_get demo_committed =
             BaseStore_get (store_of (commit demo_host demo_tables ''SET_COUNT'' (JNum 1) demo_store))"
    by (simp add: demo_committed_def)
  have w: "world_of demo_committed =
             world_of (store_of (commit demo_host demo_tables ''SET_COUNT'' (JNum 1) demo_store))"
    by (simp add: demo_committed_def)
  have n: "JSON_stringify demo_host (BaseStore_get demo_committed) \<noteq> []"
    by (simp add: demo_round_trip)
  have j: "JSON_text demo_host (JSON_stringify demo_host (BaseStore_get demo_committed))
             = Some (JObj (BaseStore_get demo_committed))"
    by (simp add: demo_round_trip)
  have k: "p_key demo_params = Some ''K''" by (simp add: demo_params_def)
  note T = persisted_state_round_trip [OF b l r s w n j k, of Map.empty]
  have c: "BaseStore_get demo_committed ''count'' = Some (JNum 1)"
    by (simp add: demo_committed_state)
  from T have t1: "localStorage (world_of demo_committed) ''K'' = Some demo_text1"
    by (simp add: demo_round_trip)
  from T have t2:
    "BaseStore_get (snd (constructor demo_host demo_params (world_of demo_committed))) = Map.empty"
    by blast
  from T have
    "BaseStore_get (store_of (init demo_host (fst (constructor demo_host demo_params (world_of demo_committed)))
       Map.empty (snd (constructor demo_host demo_params (world_of demo_committed)))))
     = Map.empty ++ BaseStore_get demo_committed"
    by blast
  then have t3:
    "BaseStore_get (store_of (init demo_host (fst (constructor demo_host demo_params (world_of demo_committed)))
       Map.empty (snd (constructor demo_host demo_params (world_of demo_committed))))) ''count''
     = Some (JNum 1)"
    using c by simp
  from T have "BaseStore_get (store_of (constructor_v1 demo_host demo_params (world_of demo_committed)))
      = BaseStore_get demo_committed" by blast
  then have t4:
    "BaseStore_get (store_of (constructor_v1 demo_host demo_params (world_of demo_committed))) ''count''
     = Some (JNum 1)" using c by simp
  show ?thesis using b l r n j k c t1 t2 t3 t4 by blast
qed

text \<open>
  The claim as first stated has the fresh instance load \<open>S\<close> at construction. After the
  commit on the concrete store, \<^verbatim>\<open>count: 1\<close> is in the state and its serialisation is under
  the key, and the state of a fresh instance built by the constructor of \<^verbatim>\<open>src/store.js\<close>
  has no field \<^verbatim>\<open>count\<close>.
\<close>

theorem fresh_store_counterexample:
  "returned (commit demo_host demo_tables ''SET_COUNT'' (JNum 1) demo_store) = Some True \<and>
   BaseStore_get demo_committed ''count'' = Some (JNum 1) \<and>
   localStorage demo_committed ''K'' = Some demo_text1 \<and>
   BaseStore_get (snd (constructor demo_host demo_params (world_of demo_committed))) ''count'' = None"
proof -
  have "localStorage demo_committed ''K'' =
          Some (JSON_stringify demo_host (BaseStore_get demo_committed))"
    unfolding demo_committed_def
    by (rule commit_persists [OF demo_commit_returns]) simp
  then have l: "localStorage demo_committed ''K'' = Some demo_text1"
    by (simp add: demo_round_trip)
  have "BaseStore_get (snd (constructor demo_host demo_params (world_of demo_committed))) = Map.empty"
    by (rule constructor_browser(1)) simp
  then show ?thesis
    using l demo_commit_returns by (simp add: demo_committed_state)
qed

subsection \<open>C7: getter resolution order\<close>

text \<open>
  Claim C7, as amended. For a getter table that has no entry named \<^verbatim>\<open>hasOwnProperty\<close> and
  for every non-empty key \<open>x\<close>: when a getter named \<open>x\<close> exists, \<^verbatim>\<open>get(x, ...args)\<close> is the
  result of that getter called on the store with the extra arguments, whether or not the
  state has a field \<open>x\<close>; when the getter table has no entry \<open>x\<close>, it is the read
  \<^verbatim>\<open>state[x]\<close>, the state's value at \<open>x\<close> when the state has that field. \<^verbatim>\<open>get()\<close> with no
  key, and \<^verbatim>\<open>get('')\<close> with the empty key, return the full state.
\<close>

theorem get_resolution_order:
  "(k \<noteq> [] \<and> getters t ''hasOwnProperty'' = None \<and> getters t k = Some (Function g) \<longrightarrow>
      get h t (Some k) args st = g st args) \<and>
   (k \<noteq> [] \<and> getters t ''hasOwnProperty'' = None \<and> getters t k = None \<longrightarrow>
      get h t (Some k) args st = Inr (read_property h (BaseStore_get st) k)) \<and>
   (k \<noteq> [] \<and> getters t ''hasOwnProperty'' = None \<and> getters t k = None \<and>
    BaseStore_get st k = Some v \<longrightarrow>
      get h t (Some k) args st = Inr v) \<and>
   get h t None args st = Inr (JObj (BaseStore_get st)) \<and>
   get h t (Some []) args st = Inr (JObj (BaseStore_get st))"
  by (simp add: get_def getters_hasOwnProperty_def read_property_def)

theorem get_resolution_order_witness:
  "''count'' \<noteq> [] \<and> getters demo_tables ''hasOwnProperty'' = None \<and>
   getters demo_tables ''count'' = Some (Function itemCount) \<and>
   BaseStore_get demo_store ''count'' = Some (JNum 0) \<and>
   get demo_host demo_tables (Some ''count'') [] demo_store = Inr (JNum 1) \<and>
   ''items'' \<noteq> [] \<and> getters demo_tables ''items'' = None \<and>
   BaseStore_get demo_store ''items'' = Some (JArr [JStr ''a'']) \<and>
   get demo_host demo_tables (Some ''items'') [] demo_store = Inr (JArr [JStr ''a'']) \<and>
   ''toString'' \<noteq> [] \<and> getters demo_tables ''toString'' = None \<and>
   get demo_host demo_tables (Some ''toString'') [] demo_store = Inr (JFunction ''toString'')"
proof -
  have c: "get demo_host demo_tables (Some ''count'') [] demo_store = Inr (JNum 1)"
    using get_resolution_order [of "''count''" demo_tables itemCount demo_host "[]" demo_store]
    by (simp add: itemCount_def demo_state_def)
  have f: "BaseStore_get demo_store ''items'' = Some (JArr [JStr ''a''])"
    by (simp add: demo_state_def)
  have n: "''items'' \<noteq> [] \<and> getters demo_tables ''hasOwnProperty'' = None \<and>
           getters demo_tables ''items'' = None"
    by simp
  have i: "get demo_host demo_tables (Some ''items'') [] demo_store = Inr (JArr [JStr ''a''])"
    using f n get_resolution_order
            [of "''items''" demo_tables itemCount demo_host "[]" demo_store "JArr [JStr ''a'']"]
    by blast
  have s: "get demo_host demo_tables (Some ''toString'') [] demo_store = Inr (JFunction ''toString'')"
    using get_resolution_order [of "''toString''" demo_tables itemCount demo_host "[]" demo_store]
    by (simp add: read_property_def demo_state_def Object_prototype_toString_def)
  show ?thesis using c i s by (simp add: demo_state_def)
qed

text \<open>
  The claim as first stated covers every key and every getter table. With a getter
  registered under the empty name, \<^verbatim>\<open>get('')\<close> is the full state and not the getter's
  result. With an own entry \<^verbatim>\<open>hasOwnProperty\<close> that returns false, \<^verbatim>\<open>get('count')\<close> is the
  state's field and not the result of the getter \<^verbatim>\<open>count\<close>.
\<close>

theorem get_blank_key_counterexample:
  "getters blank_name_tables [] = Some (Function itemCount) \<and>
   itemCount demo_store [] = Inr (JNum 1) \<and>
   get demo_host blank_name_tables (Some []) [] demo_store = Inr (JObj demo_state) \<and>
   get demo_host blank_name_tables (Some []) [] demo_store \<noteq> itemCount demo_store [] \<and>
   getters shadowing_tables ''count'' = Some (Function itemCount) \<and>
   get demo_host shadowing_tables (Some ''count'') [] demo_store = Inr (JNum 0) \<and>
   get demo_host shadowing_tables (Some ''count'') [] demo_store \<noteq> itemCount demo_store []"
  by (simp add: get_def blank_name_tables_def shadowing_tables_def itemCount_def demo_state_def
        getters_hasOwnProperty_def always_false_def read_property_def)

subsection \<open>C8: set warns and writes\<close>

text \<open>
  Claim C8, as amended. For every call of set: the new state is forwarded to the reactive
  primitive, so the state object, the heap and the persisted data afterwards are those the
  primitive's set produces, and the resulting state is the new state whatever the guard
  was. The console receives the warning exactly when the guard is not mutation-in-progress
  and the configuration is the development one (\<^verbatim>\<open>NODE_ENV\<close> is \<^verbatim>\<open>'development'\<close>); in
  every other configuration, production or not, set prints nothing.
\<close>

theorem set_warns_but_writes:
  "BaseStore_get (set' h newState st) = newState \<and>
   state_ref (set' h newState st) = state_ref (BaseStore_set h newState st) \<and>
   heap (set' h newState st) = heap (BaseStore_set h newState st) \<and>
   localStorage (set' h newState st) = localStorage (BaseStore_set h newState st) \<and>
   console (set' h newState st) =
     console st
       @ (if status st \<noteq> Mutation \<and> NODE_ENV h = Some ''development''
          then [Warn direct_set_warning] else [])
       @ (if NODE_ENV h = Some ''development''
          then [LogWith ''stateChange:'' (JObj newState)] else []) \<and>
   (NODE_ENV h \<noteq> Some ''development'' \<longrightarrow> console (set' h newState st) = console st)"
  by (simp add: set'_get set'_console set'_fields set'_localStorage BaseStore_set_localStorage
        isDev_def fun_eq_iff)

theorem set_warns_but_writes_witness:
  "NODE_ENV (demo_host\<lparr>NODE_ENV := Some ''production''\<rparr>) \<noteq> Some ''development'' \<and>
   console (set' (demo_host\<lparr>NODE_ENV := Some ''production''\<rparr>) Map.empty demo_store) = [] \<and>
   BaseStore_get (set' (demo_host\<lparr>NODE_ENV := Some ''production''\<rparr>) Map.empty demo_store)
     = Map.empty \<and>
   console (set' demo_host Map.empty demo_store) =
     [Warn direct_set_warning, LogWith ''stateChange:'' (JObj Map.empty)] \<and>
   BaseStore_get (set' demo_host Map.empty demo_store) = Map.empty"
proof -
  note P = set_warns_but_writes [of "demo_host\<lparr>NODE_ENV := Some ''production''\<rparr>" Map.empty demo_store]
  note D = set_warns_but_writes [of demo_host Map.empty demo_store]
  have e: "console demo_store = []" by (simp add: demo_store_def)
  have n: "NODE_ENV (demo_host\<lparr>NODE_ENV := Some ''production''\<rparr>) \<noteq> Some ''development''"
    by simp
  from P n have p1: "console (set' (demo_host\<lparr>NODE_ENV := Some ''production''\<rparr>) Map.empty demo_store) = []"
    using e by metis
  from P have p2:
    "BaseStore_get (set' (demo_host\<lparr>NODE_ENV := Some ''production''\<rparr>) Map.empty demo_store) = Map.empty"
    by blast
  from D have d1: "console (set' demo_host Map.empty demo_store) =
     [Warn direct_set_warning, LogWith ''stateChange:'' (JObj Map.empty)]"
    using e by simp
  from D have d2: "BaseStore_get (set' demo_host Map.empty demo_store) = Map.empty"
    by blast
  show ?thesis using n p1 p2 d1 d2 by simp
qed

text \<open>
  The claim as first stated has the warning in the non-production configurations. With
  \<^verbatim>\<open>NODE_ENV\<close> set to \<^verbatim>\<open>'test'\<close>, or not set at all, and the guard idle, set prints nothing.
\<close>

theorem set_warning_counterexample:
  "NODE_ENV (demo_host\<lparr>NODE_ENV := Some ''test''\<rparr>) \<noteq> Some ''production'' \<and>
   NODE_ENV (demo_host\<lparr>NODE_ENV := None\<rparr>) \<noteq> Some ''production'' \<and>
   status demo_store \<noteq> Mutation \<and>
   console demo_store = [] \<and>
   console (set' (demo_host\<lparr>NODE_ENV := Some ''test''\<rparr>) Map.empty demo_store) = [] \<and>
   console (set' (demo_host\<lparr>NODE_ENV := None\<rparr>) Map.empty demo_store) = []"
  by (simp add: set'_console isDev_def demo_store_def)

subsection \<open>C9: on init the persisted state wins\<close>

text \<open>
  Claim C9. In the browser, for every server state and every persisted snapshot that is
  stored under the storage key and parses to an object, \<^verbatim>\<open>init(serverState)\<close> returns and
  sets the state to the shallow merge of the server state and the snapshot in which the
  snapshot's value wins on every key the snapshot has.
\<close>

theorem init_persisted_state_wins:
  assumes "browser h"
    and "localStorage st (storeKey t) = Some s"
    and "s \<noteq> []"
    and "JSON_text h s = Some (JObj snapshot)"
  shows "returned (init h t serverState st) = Some () \<and>
         BaseStore_get (store_of (init h t serverState st)) = serverState ++ snapshot \<and>
         (\<forall>x. BaseStore_get (store_of (init h t serverState st)) x =
                (if x \<in> dom snapshot then snapshot x else serverState x))"
  using assms by (auto simp: init_def Let_def set'_get map_add_def split: option.splits)

theorem init_persisted_state_wins_witness:
  "browser demo_host \<and>
   localStorage (demo_store\<lparr>localStorage := [''K'' \<mapsto> demo_text1]\<rparr>) (storeKey demo_tables)
     = Some demo_text1 \<and>
   demo_text1 \<noteq> [] \<and>
   JSON_text demo_host demo_text1 = Some (JObj (demo_state(''count'' \<mapsto> JNum 1))) \<and>
   BaseStore_get (store_of (init demo_host demo_tables [''count'' \<mapsto> JNum 5, ''user'' \<mapsto> JNull]
                    (demo_store\<lparr>localStorage := [''K'' \<mapsto> demo_text1]\<rparr>))) ''count''
     = Some (JNum 1) \<and>
   BaseStore_get (store_of (init demo_host demo_tables [''count'' \<mapsto> JNum 5, ''user'' \<mapsto> JNull]
                    (demo_store\<lparr>localStorage := [''K'' \<mapsto> demo_text1]\<rparr>))) ''user''
     = Some JNull"
proof -
  have b: "browser demo_host" by simp
  have l: "localStorage (demo_store\<lparr>localStorage := [''K'' \<mapsto> demo_text1]\<rparr>) (storeKey demo_tables)
     = Some demo_text1" by simp
  have n: "demo_text1 \<noteq> []" by (simp add: demo_text1_def)
  have j: "JSON_text demo_host demo_text1 = Some (JObj (demo_state(''count'' \<mapsto> JNum 1)))"
    by (simp add: demo_JSON_text_def)
  show ?thesis
    using b l n j
      init_persisted_state_wins [OF b l n j, of "[''count'' \<mapsto> JNum 5, ''user'' \<mapsto> JNull]"]
    by (simp add: demo_state_def map_add_def)
qed

subsection \<open>C10: init without a persisted value\<close>

text \<open>
  Claim C10. Whenever no value is persisted under the storage key, \<^verbatim>\<open>init(serverState)\<close>
  raises and leaves the state unchanged; in the browser the exception is the SyntaxError of
  \<^verbatim>\<open>JSON.parse({})\<close> and the guard is left at mutation-in-progress. init returns only when
  a non-empty string that parses is persisted under the storage key.
\<close>

theorem init_raises_without_persisted_value:
  "(localStorage st (storeKey t) = None \<longrightarrow>
      thrown (init h t serverState st) \<noteq> None \<and>
      BaseStore_get (store_of (init h t serverState st)) = BaseStore_get st) \<and>
   (browser h \<and> localStorage st (storeKey t) = None \<longrightarrow>
      init h t serverState st = Throws SyntaxError (st\<lparr>status := Mutation\<rparr>)) \<and>
   (returned (init h t serverState st) \<noteq> None \<longrightarrow>
      browser h \<and>
      (\<exists>s. localStorage st (storeKey t) = Some s \<and> s \<noteq> [] \<and> JSON_text h s \<noteq> None))"
  by (auto simp: init_def Let_def BaseStore_get_def split: option.splits if_splits)

theorem init_raises_without_persisted_value_witness:
  "localStorage demo_store (storeKey demo_tables) = None \<and> browser demo_host \<and>
   init demo_host demo_tables demo_state demo_store
     = Throws SyntaxError (demo_store\<lparr>status := Mutation\<rparr>) \<and>
   returned (init demo_host demo_tables demo_state
               (demo_store\<lparr>localStorage := [''K'' \<mapsto> demo_text0]\<rparr>)) \<noteq> None \<and>
   JSON_text demo_host demo_text0 \<noteq> None"
proof -
  have r: "returned (init demo_host demo_tables demo_state
               (demo_store\<lparr>localStorage := [''K'' \<mapsto> demo_text0]\<rparr>)) \<noteq> None"
    by (simp add: init_def Let_def demo_JSON_text_def demo_text0_def demo_text1_def)
  show ?thesis
    using r init_raises_without_persisted_value [of demo_store demo_tables demo_host demo_state]
      init_raises_without_persisted_value
        [of "demo_store\<lparr>localStorage := [''K'' \<mapsto> demo_text0]\<rparr>" demo_tables demo_host demo_state]
    by (simp add: demo_JSON_text_def)
qed

end
